theory Spec2Isabelle
  imports Main "HOL-Library.Sublist" "HOL-Library.Char_ord" "HOL-Library.List_Lexorder"
    "HOL-Library.Product_Lexorder"
begin

section \<open>pycargoebuild: the ebuild generator\<close>

text \<open>
  A shallow embedding of \<^verbatim>\<open>src/pycargoebuild/ebuild.py\<close>. Python strings are
  \<^typ>\<open>string\<close>, file contents are byte lists, dictionaries are maps, exceptions are the
  left summand of a sum type, and the file system of the cache directory is passed
  through explicitly.
\<close>

subsection \<open>Strings\<close>

abbreviation NL :: char where "NL \<equiv> CHR 0x0A"
abbreviation TAB :: char where "TAB \<equiv> CHR 0x09"
abbreviation DQ :: char where "DQ \<equiv> CHR 0x22"

text \<open>
  Python's \<^verbatim>\<open>str.replace(old, new)\<close>: the occurrences of \<open>old\<close> are found from left
  to right without overlap. With an empty \<open>old\<close> Python puts \<open>new\<close> before every
  character and at the end.
\<close>

function py_replace :: "string \<Rightarrow> string \<Rightarrow> string \<Rightarrow> string" where
  "py_replace old new [] = (if old = [] then new else [])"
| "py_replace old new (c # cs) =
     (if old = [] then new @ c # py_replace old new cs
      else if prefix old (c # cs)
        then new @ py_replace old new (drop (length old) (c # cs))
      else c # py_replace old new cs)"
  by pat_completeness auto
termination
  by (relation "measure (\<lambda>(old, new, s). length s)") (auto simp: neq_Nil_conv)

text \<open>Python's \<^verbatim>\<open>sep.join(xs)\<close>.\<close>

fun join :: "string \<Rightarrow> string list \<Rightarrow> string" where
  "join sep [] = []"
| "join sep [x] = x"
| "join sep (x # y # ys) = x @ sep @ join sep (y # ys)"

text \<open>Python's \<^verbatim>\<open>s.split(sep)\<close> for a separator of one character.\<close>

fun split_on :: "char \<Rightarrow> string \<Rightarrow> string list" where
  "split_on sep [] = [[]]"
| "split_on sep (c # cs) =
     (if c = sep then [] # split_on sep cs
      else (case split_on sep cs of
              [] \<Rightarrow> [[c]]
            | l # ls \<Rightarrow> (c # l) # ls))"

text \<open>The decimal rendering of a non-negative integer, as \<^verbatim>\<open>str.format\<close> prints it.\<close>

definition digit_char :: "nat \<Rightarrow> char" where
  "digit_char d = char_of (48 + d)"

fun str_nat :: "nat \<Rightarrow> string" where
  "str_nat n = (if n < 10 then [digit_char n] else str_nat (n div 10) @ [digit_char (n mod 10)])"

declare str_nat.simps [simp del]

subsection \<open>The legacy license dialect\<close>

text \<open>\<^verbatim>\<open>cargo_to_spdx\<close>, ebuild.py lines 48-52.\<close>

definition cargo_to_spdx :: "string \<Rightarrow> string" where
  "cargo_to_spdx license_str = py_replace ''/'' '' OR '' license_str"

subsection \<open>Data\<close>

type_synonym bytes = "char list"

text \<open>
  A TOML table whose values are strings: the package table of \<^verbatim>\<open>Cargo.toml\<close> and the
  entries of \<^verbatim>\<open>Cargo.lock\<close>'s package array.
\<close>

type_synonym table = "string \<rightharpoonup> string"

text \<open>\<^verbatim>\<open>Cargo.toml\<close> as a dictionary of tables.\<close>

type_synonym cargo_toml = "string \<rightharpoonup> table"

text \<open>
  \<^verbatim>\<open>Cargo.lock\<close>: the keys \<^verbatim>\<open>version\<close> and \<^verbatim>\<open>package\<close> of the dictionary, each of
  which may be missing.
\<close>

record cargo_lock =
  lock_version :: "int option"
  lock_package :: "table list option"

datatype error =
    KeyError string
  | AssertionError string
  | CalledProcessError
  | FileNotFoundError string
  | ExpressionError string
  | AttributeError string
  | ArchiveError string
  | ArtifactStructureError string

text \<open>
  What \<^verbatim>\<open>get_ebuild\<close> calls and this repository's \<^verbatim>\<open>ebuild.py\<close> does not define. Each
  is a parameter of the model:
  \<^item> \<open>parse\<close>: \<^verbatim>\<open>spdx.parse(s, validate=True, strict=True)\<close> of the license-expression
    library; it raises, or returns an expression, or returns \<^verbatim>\<open>None\<close>;
  \<^item> \<open>simplify\<close>: the method \<^verbatim>\<open>simplify()\<close> of a parsed expression;
  \<^item> \<open>spdx_to_ebuild\<close>: \<^verbatim>\<open>pycargoebuild.license.spdx_to_ebuild\<close>, applied to an
    expression or to \<^verbatim>\<open>None\<close>;
  \<^item> \<open>hexdigest\<close>: the SHA-256 digest, in hexadecimal, of a byte string;
  \<^item> \<open>wget\<close>: the run of \<^verbatim>\<open>wget -O path url\<close>: whether it exits with status zero, and
    the content it leaves at the path (if any);
  \<^item> \<open>load_manifest\<close>: opening an archive as a gzipped tarball, extracting the named
    member and parsing it as TOML;
  \<^item> \<open>prog_version\<close>: \<^verbatim>\<open>pycargoebuild.__version__\<close>;
  \<^item> \<open>today_year\<close>: \<^verbatim>\<open>datetime.date.today().year\<close>.
\<close>

record 'e env =
  parse :: "string \<Rightarrow> error + 'e option"
  simplify :: "'e \<Rightarrow> 'e"
  spdx_to_ebuild :: "'e option \<Rightarrow> error + string"
  hexdigest :: "bytes \<Rightarrow> string"
  wget :: "string \<Rightarrow> bool \<times> bytes option"
  load_manifest :: "string \<Rightarrow> bytes \<Rightarrow> error + cargo_toml"
  prog_version :: string
  today_year :: nat

text \<open>
  The files of the cache directory, by path, and the URLs that have been passed to
  \<^verbatim>\<open>wget\<close>, in order.
\<close>

record state =
  files :: "string \<rightharpoonup> bytes"
  downloads :: "string list"

subsection \<open>The template\<close>

text \<open>\<^verbatim>\<open>EBUILD_TEMPLATE.format(...)\<close>, ebuild.py lines 20-45.\<close>

definition EBUILD_TEMPLATE ::
  "string \<Rightarrow> string \<Rightarrow> string \<Rightarrow> string \<Rightarrow> string \<Rightarrow> string \<Rightarrow> string \<Rightarrow> string" where
  \<open>EBUILD_TEMPLATE year version crates description homepage pkg_license crate_licenses =
     ''# Copyright '' @ year @ '' Gentoo Authors\<newline>'' @
     ''# Distributed under the terms of the GNU General Public License v2\<newline>'' @
     ''\<newline>'' @
     ''# Autogenerated by pycargoebuild '' @ version @ ''\<newline>'' @
     ''\<newline>'' @
     ''EAPI=8\<newline>'' @
     ''\<newline>'' @
     ''CRATES="\<newline>'' @
     crates @ ''\<newline>'' @
     ''"\<newline>'' @
     ''\<newline>'' @
     ''inherit cargo\<newline>'' @
     ''\<newline>'' @
     ''DESCRIPTION="'' @ description @ ''"\<newline>'' @
     ''HOMEPAGE="'' @ homepage @ ''"\<newline>'' @
     ''SRC_URI="\<newline>'' @
     TAB # ''$(cargo_crate_uris)\<newline>'' @
     ''"\<newline>'' @
     ''\<newline>'' @
     ''LICENSE="'' @ pkg_license @ ''"\<newline>'' @
     ''# Dependent crate licenses\<newline>'' @
     ''LICENSE+=" '' @ crate_licenses @ ''"\<newline>'' @
     ''SLOT="0"\<newline>'' @
     ''KEYWORDS="~amd64"\<newline>''\<close>

subsection \<open>The crate list\<close>

text \<open>
  The list comprehension of lines 69-71: for each entry of the lock file's package
  array, first the condition \<^verbatim>\<open>p["name"] != pkgmeta["name"]\<close>, then the tuple. A missing
  key raises \<^verbatim>\<open>KeyError\<close>.
\<close>

fun get_deps :: "table \<Rightarrow> table list \<Rightarrow> error + (string \<times> string \<times> string) list" where
  "get_deps pkgmeta [] = Inr []"
| "get_deps pkgmeta (p # ps) =
     (case p ''name'' of
        None \<Rightarrow> Inl (KeyError ''name'')
      | Some n \<Rightarrow>
          (case pkgmeta ''name'' of
             None \<Rightarrow> Inl (KeyError ''name'')
           | Some pn \<Rightarrow>
               if n \<noteq> pn then
                 (case p ''version'' of
                    None \<Rightarrow> Inl (KeyError ''version'')
                  | Some v \<Rightarrow>
                      (case p ''checksum'' of
                         None \<Rightarrow> Inl (KeyError ''checksum'')
                       | Some c \<Rightarrow>
                           (case get_deps pkgmeta ps of
                              Inl e \<Rightarrow> Inl e
                            | Inr ds \<Rightarrow> Inr ((n, v, c) # ds))))
               else get_deps pkgmeta ps))"

text \<open>Line 72: one line per dependency, in the order of the list.\<close>

definition crates_str :: "(string \<times> string \<times> string) list \<Rightarrow> string" where
  "crates_str deps = join [NL] (map (\<lambda>(p, v, _). TAB # p @ ''-'' @ v) deps)"

subsection \<open>Fetching and verifying\<close>

text \<open>
  The creation of the cache directory (line 75) is left out: the state holds files, not
  directories. An \<^verbatim>\<open>assert\<close> that fails raises \<^verbatim>\<open>AssertionError\<close>, as when Python runs
  without \<^verbatim>\<open>-O\<close>.
\<close>

text \<open>
  The read loop of lines 86-90 on an unbuffered file: \<^verbatim>\<open>readinto\<close> fills the buffer of
  \<^verbatim>\<open>128 * 1024\<close> bytes with what is left of the file, at most, and returns the number of
  bytes read; the loop ends when that is zero. \<open>fed\<close> is the list of the chunks passed
  to \<^verbatim>\<open>hasher.update\<close> so far.
\<close>

definition buffer_size :: nat where
  "buffer_size = 128 * 1024"

function read_loop :: "bytes \<Rightarrow> bytes list \<Rightarrow> bytes list" where
  "read_loop rest fed =
     (let rd = min buffer_size (length rest)
      in if rd = 0 then fed else read_loop (drop rd rest) (fed @ [take rd rest]))"
  by pat_completeness auto
termination
  by (relation "measure (\<lambda>(rest, fed). length rest)") (auto simp: buffer_size_def)

declare read_loop.simps [simp del]

text \<open>
  A hasher that has been updated with the chunks \<open>fed\<close> has the digest of their
  concatenation (the contract of \<^verbatim>\<open>hashlib\<close>'s \<^verbatim>\<open>update\<close>).
\<close>

definition file_hexdigest :: "'e env \<Rightarrow> bytes \<Rightarrow> string" where
  "file_hexdigest E content = hexdigest E (concat (read_loop content []))"

text \<open>
  \<^verbatim>\<open>distdir\<close> is a \<^verbatim>\<open>pathlib.Path\<close>: a root (empty, \<^verbatim>\<open>/\<close> or \<^verbatim>\<open>//\<close>) and the list of
  its components. Parsing a string drops empty components and the component \<^verbatim>\<open>.\<close>;
  exactly two leading slashes are kept as the root \<^verbatim>\<open>//\<close>. In \<^verbatim>\<open>distdir / name\<close> an
  absolute right-hand side replaces the left. The string of a path with no root and no
  component is \<^verbatim>\<open>.\<close>.
\<close>

datatype path = Path string "string list"

definition segments :: "string \<Rightarrow> string list" where
  "segments s = filter (\<lambda>x. x \<noteq> [] \<and> x \<noteq> ''.'') (split_on CHR ''/'' s)"

definition root_of :: "string \<Rightarrow> string" where
  "root_of s =
     (if \<not> prefix ''/'' s then []
      else if prefix ''//'' s \<and> \<not> prefix ''///'' s then ''//''
      else ''/'')"

definition parse_path :: "string \<Rightarrow> path" where
  "parse_path s = Path (root_of s) (segments s)"

fun path_div :: "path \<Rightarrow> string \<Rightarrow> path" where
  "path_div (Path r ps) s = (if prefix ''/'' s then parse_path s else Path r (ps @ segments s))"

fun path_str :: "path \<Rightarrow> string" where
  "path_str (Path r ps) = (if r = [] \<and> ps = [] then ''.'' else r @ join ''/'' ps)"

text \<open>
  Line 80. The path is used through its string: as the argument of \<^verbatim>\<open>wget\<close>, as the name
  of the file to open, and in the message of the assertion.
\<close>

definition crate_path :: "path \<Rightarrow> string \<Rightarrow> string \<Rightarrow> string" where
  "crate_path distdir p v = path_str (path_div distdir (p @ ''-'' @ v @ ''.crate''))"

definition crate_url :: "string \<Rightarrow> string \<Rightarrow> string" where
  "crate_url p v = ''https://crates.io/api/v1/crates/'' @ p @ ''/'' @ v @ ''/download''"

definition mismatch_msg :: "string \<Rightarrow> string \<Rightarrow> string \<Rightarrow> string" where
  "mismatch_msg path got csum =
     ''checksum mismatch for '' @ path @ '', got: '' @ got @ '', exp: '' @ csum"

text \<open>
  A Python set of strings, kept as a list without duplicates, in the order of insertion.
  Python does not specify the order in which a set is iterated; no property below depends
  on it.
\<close>

definition set_add :: "string \<Rightarrow> string list \<Rightarrow> string list" where
  "set_add x xs = (if x \<in> set xs then xs else xs @ [x])"

definition set_discard :: "string \<Rightarrow> string list \<Rightarrow> string list" where
  "set_discard x xs = removeAll x xs"

text \<open>Lines 81-83: the download, only when the path does not exist.\<close>

definition fetch :: "'e env \<Rightarrow> string \<Rightarrow> string \<Rightarrow> state \<Rightarrow> bool \<times> state" where
  "fetch E path url st =
     (case files st path of
        Some _ \<Rightarrow> (True, st)
      | None \<Rightarrow>
          (let (ok, content) = wget E url
           in (ok, st\<lparr>files := (files st)(path := content),
                      downloads := downloads st @ [url]\<rparr>)))"

text \<open>Lines 84-93: the digest of the file at the path against the checksum.\<close>

definition verify :: "'e env \<Rightarrow> string \<Rightarrow> string \<Rightarrow> state \<Rightarrow> error + bytes" where
  "verify E path csum st =
     (case files st path of
        None \<Rightarrow> Inl (FileNotFoundError path)
      | Some content \<Rightarrow>
          if file_hexdigest E content = csum then Inr content
          else Inl (AssertionError (mismatch_msg path (file_hexdigest E content) csum)))"

text \<open>Lines 94-99: the license declared in the crate's own manifest.\<close>

definition crate_license :: "'e env \<Rightarrow> string \<Rightarrow> string \<Rightarrow> bytes \<Rightarrow> error + string" where
  "crate_license E p v content =
     (case load_manifest E (p @ ''-'' @ v @ ''/Cargo.toml'') content of
        Inl e \<Rightarrow> Inl e
      | Inr crate_toml \<Rightarrow>
          (case crate_toml ''package'' of
             None \<Rightarrow> Inl (KeyError ''package'')
           | Some pkg \<Rightarrow>
               if ''license_file'' \<in> dom pkg then Inl (AssertionError '''')
               else (case pkg ''license'' of
                       None \<Rightarrow> Inl (KeyError ''license'')
                     | Some l \<Rightarrow> Inr (cargo_to_spdx l))))"

text \<open>The loop of lines 79-99, with the set of licenses collected so far.\<close>

fun fetch_all ::
  "'e env \<Rightarrow> path \<Rightarrow> (string \<times> string \<times> string) list \<Rightarrow> string list \<Rightarrow> state \<Rightarrow>
     (error + string list) \<times> state" where
  "fetch_all E distdir [] crate_licenses st = (Inr crate_licenses, st)"
| "fetch_all E distdir ((p, v, csum) # deps) crate_licenses st =
     (let path = crate_path distdir p v;
          (ok, st') = fetch E path (crate_url p v) st
      in if \<not> ok then (Inl CalledProcessError, st')
         else (case verify E path csum st' of
                 Inl e \<Rightarrow> (Inl e, st')
               | Inr content \<Rightarrow>
                   (case crate_license E p v content of
                      Inl e \<Rightarrow> (Inl e, st')
                    | Inr l \<Rightarrow> fetch_all E distdir deps (set_add l crate_licenses) st')))"

subsection \<open>The dependent licenses\<close>

text \<open>
  Lines 101-105. \<^verbatim>\<open>simplify\<close> is a method call, so it fails with \<^verbatim>\<open>AttributeError\<close> when
  the parser has returned \<^verbatim>\<open>None\<close>.
\<close>

definition combined_license :: "string list \<Rightarrow> string" where
  "combined_license crate_licenses = join '' AND '' (map (\<lambda>x. ''( '' @ x @ '' )'') crate_licenses)"

definition final_license :: "'e env \<Rightarrow> string \<Rightarrow> string list \<Rightarrow> error + 'e" where
  "final_license E pkg_license crate_licenses =
     (case parse E (combined_license (set_discard pkg_license crate_licenses)) of
        Inl e \<Rightarrow> Inl e
      | Inr None \<Rightarrow> Inl (AttributeError ''simplify'')
      | Inr (Some parsed_license) \<Rightarrow> Inr (simplify E parsed_license))"

subsection \<open>\<^verbatim>\<open>get_ebuild\<close>\<close>

text \<open>
  Lines 107-114: the arguments of \<^verbatim>\<open>format\<close> are evaluated from left to right, so the
  rendering of the dependent licenses comes before the lookup of the homepage, and that
  before the rendering of the package's license.
\<close>

definition render_ebuild ::
  "'e env \<Rightarrow> table \<Rightarrow> string \<Rightarrow> 'e option \<Rightarrow> 'e \<Rightarrow> error + string" where
  "render_ebuild E pkgmeta crates parsed_pkg_license final =
     (case spdx_to_ebuild E (Some final) of
        Inl e \<Rightarrow> Inl e
      | Inr crate_licenses \<Rightarrow>
          (let description = (case pkgmeta ''description'' of None \<Rightarrow> '''' | Some d \<Rightarrow> d)
           in case pkgmeta ''homepage'' of
                None \<Rightarrow> Inl (KeyError ''homepage'')
              | Some homepage \<Rightarrow>
                  (case spdx_to_ebuild E parsed_pkg_license of
                     Inl e \<Rightarrow> Inl e
                   | Inr pkg_license \<Rightarrow>
                       Inr (EBUILD_TEMPLATE (str_nat (today_year E)) (prog_version E) crates
                              description homepage pkg_license crate_licenses))))"

definition get_ebuild ::
  "'e env \<Rightarrow> cargo_toml \<Rightarrow> cargo_lock \<Rightarrow> path \<Rightarrow> state \<Rightarrow> (error + string) \<times> state" where
  "get_ebuild E cargo_toml cargo_lock distdir st =
     (case cargo_toml ''package'' of
        None \<Rightarrow> (Inl (KeyError ''package''), st)
      | Some pkgmeta \<Rightarrow>
          if ''license_file'' \<in> dom pkgmeta then (Inl (AssertionError ''''), st)
          else
          (case pkgmeta ''license'' of
             None \<Rightarrow> (Inl (KeyError ''license''), st)
           | Some pkg_license \<Rightarrow>
          (case parse E pkg_license of
             Inl e \<Rightarrow> (Inl e, st)
           | Inr parsed_pkg_license \<Rightarrow>
          (case lock_version cargo_lock of
             None \<Rightarrow> (Inl (KeyError ''version''), st)
           | Some ver \<Rightarrow>
          if ver \<noteq> 3 then (Inl (AssertionError ''''), st)
          else
          (case lock_package cargo_lock of
             None \<Rightarrow> (Inl (KeyError ''package''), st)
           | Some packages \<Rightarrow>
          (case get_deps pkgmeta packages of
             Inl e \<Rightarrow> (Inl e, st)
           | Inr deps \<Rightarrow>
          (case fetch_all E distdir deps [] st of
             (Inl e, st') \<Rightarrow> (Inl e, st')
           | (Inr crate_licenses, st') \<Rightarrow>
          (case final_license E pkg_license crate_licenses of
             Inl e \<Rightarrow> (Inl e, st')
           | Inr final \<Rightarrow>
               (render_ebuild E pkgmeta (crates_str deps) parsed_pkg_license final, st')))))))))"

subsection \<open>Rendering a license expression\<close>

text \<open>
  Modelled from the spec: \<^verbatim>\<open>pycargoebuild/license.py\<close> (\<^verbatim>\<open>spdx_to_ebuild\<close>) is not among
  the sources, so the renderer follows section 4.1 of the specification: a tree over
  atoms with the operators OR and AND; a single atom renders as itself, an OR-chain as
  \<^verbatim>\<open>|| ( a1 a2 ... aN )\<close>, an AND-chain as its operands joined by spaces, where an
  AND-chain that is an operand of an OR is put in parentheses so that the nesting can be
  read back.
\<close>

datatype tree = Atom string | AndNode "tree list" | OrNode "tree list"

fun atoms :: "tree \<Rightarrow> string set" where
  "atoms (Atom a) = {a}"
| "atoms (AndNode ts) = (\<Union>t \<in> set ts. atoms t)"
| "atoms (OrNode ts) = (\<Union>t \<in> set ts. atoms t)"

fun render :: "bool \<Rightarrow> tree \<Rightarrow> string" where
  "render in_or (Atom a) = a"
| "render in_or (OrNode ts) = ''|| ( '' @ join '' '' (map (render True) ts) @ '' )''"
| "render in_or (AndNode ts) =
     (if in_or then ''( '' @ join '' '' (map (render False) ts) @ '' )''
      else join '' '' (map (render False) ts))"

text \<open>Python's \<^verbatim>\<open>str.lower\<close> on ASCII text, to state a comparison that ignores case.\<close>

definition lower_char :: "char \<Rightarrow> char" where
  "lower_char c =
     (if (65::nat) \<le> of_char c \<and> of_char c \<le> (90::nat) then char_of (of_char c + (32::nat)) else c)"

definition lower :: "string \<Rightarrow> string" where
  "lower s = map lower_char s"

subsection \<open>A concrete environment\<close>

text \<open>
  An environment to run the model on concrete inputs. Its parser returns \<^verbatim>\<open>None\<close> for
  the empty expression, as the license-expression library documents for
  \<^verbatim>\<open>Licensing.parse\<close>, and otherwise keeps the text; the digest of the empty file is the
  SHA-256 digest of the empty byte string; every archive holds a manifest with the license
  \<^verbatim>\<open>MIT/Apache-2.0\<close>; every download fails.
\<close>

definition sha256_empty :: string where
  "sha256_empty = ''e3b0c44298fc1c149afbf4c8996fb92427ae41e4649b934ca495991b7852b855''"

definition demo_env :: "string env" where
  "demo_env = \<lparr>
     parse = (\<lambda>s. if s = [] then Inr None else Inr (Some s)),
     simplify = (\<lambda>e. e),
     spdx_to_ebuild = (\<lambda>x. case x of None \<Rightarrow> Inr [] | Some s \<Rightarrow> Inr s),
     hexdigest = (\<lambda>b. if b = [] then sha256_empty else ''00''),
     wget = (\<lambda>url. (False, None)),
     load_manifest = (\<lambda>member b. Inr [''package'' \<mapsto> [''license'' \<mapsto> ''MIT/Apache-2.0'']]),
     prog_version = ''0.1'',
     today_year = 2023 \<rparr>"

definition demo_dist :: path where
  "demo_dist = Path [] [''dist'']"

definition demo_state :: state where
  "demo_state = \<lparr>files = [''dist/x-1.crate'' \<mapsto> []], downloads = []\<rparr>"

text \<open>
  The same environment with a download that succeeds and leaves the empty file, and a
  cache directory that holds nothing yet.
\<close>

definition download_env :: "string env" where
  "download_env = demo_env\<lparr>wget := (\<lambda>url. (True, Some []))\<rparr>"

definition empty_state :: state where
  "empty_state = \<lparr>files = Map.empty, downloads = []\<rparr>"

definition foo_bar_lock :: "table list" where
  "foo_bar_lock =
     [[''name'' \<mapsto> ''foo'', ''version'' \<mapsto> ''1'', ''checksum'' \<mapsto> ''''],
      [''name'' \<mapsto> ''bar'', ''version'' \<mapsto> ''2'', ''checksum'' \<mapsto> '''']]"

definition demo_toml :: "string \<Rightarrow> cargo_toml" where
  "demo_toml l =
     [''package'' \<mapsto> [''name'' \<mapsto> ''app'', ''license'' \<mapsto> l, ''homepage'' \<mapsto> ''https://example.com'']]"

definition x_lock :: "string \<Rightarrow> cargo_lock" where
  "x_lock csum = \<lparr>lock_version = Some 3,
     lock_package = Some [[''name'' \<mapsto> ''x'', ''version'' \<mapsto> ''1'', ''checksum'' \<mapsto> csum]]\<rparr>"

section \<open>The recipe patcher\<close>

text \<open>
  Modelled from the spec: \<^verbatim>\<open>update_ebuild\<close>, the patcher of an existing ebuild, is called
  by \<^verbatim>\<open>src/test/test_ebuild.py\<close> but is not defined in \<^verbatim>\<open>src/pycargoebuild/ebuild.py\<close>. The
  definitions of this section follow section 4.3 of the specification (the contract
  \<^verbatim>\<open>update(existingText, meta, deps, fetchDir, includeCrateLicenses)\<close> and its five steps),
  the artifact format of section 6 and the single-pass scan of section 9. Where the
  specification leaves a choice open, or words it otherwise than the tests of
  \<^verbatim>\<open>test_ebuild.py\<close> exercise it, the tests are followed; each such place says so.
\<close>

subsection \<open>Dependencies and metadata\<close>

text \<open>Section 3 of the specification: the two variants of a dependency reference.\<close>

datatype crate =
    FileCrate string string string
  | GitCrate string string string string

fun crate_name :: "crate \<Rightarrow> string" where
  "crate_name (FileCrate n v c) = n"
| "crate_name (GitCrate n v r h) = n"

fun crate_version :: "crate \<Rightarrow> string" where
  "crate_version (FileCrate n v c) = v"
| "crate_version (GitCrate n v r h) = v"

fun is_git :: "crate \<Rightarrow> bool" where
  "is_git (FileCrate n v c) = False"
| "is_git (GitCrate n v r h) = True"

record package_metadata =
  pm_name :: string
  pm_version :: string
  pm_license :: "string option"
  pm_description :: "string option"
  pm_homepage :: "string option"

subsection \<open>Lines\<close>

text \<open>The text as its lines and back: \<^verbatim>\<open>text.split("\n")\<close> and \<^verbatim>\<open>"\n".join(lines)\<close>.\<close>

definition split_lines :: "string \<Rightarrow> string list" where
  "split_lines s = split_on NL s"

definition join_lines :: "string list \<Rightarrow> string" where
  "join_lines ls = join [NL] ls"

subsection \<open>Region markers\<close>

text \<open>
  The markers are those of the artifact format of section 6, as the tests spell them. A
  region starts at a line exactly equal to its opener and ends at the first later line
  exactly equal to its close marker (step 1 of section 4.3). For the two quoted
  variables the opener and the closing quote may also share one line: the collapsed form
  \<^verbatim>\<open>CRATES=""\<close> of section 6 and the addendum \<^verbatim>\<open>LICENSE+=" CC0-1.0"\<close> of the artifact of
  \<^verbatim>\<open>test_update_ebuild\<close> are regions of one line.
\<close>

definition crates_open :: string where
  \<open>crates_open = ''CRATES="''\<close>

definition license_comment :: string where
  "license_comment = ''# Dependent crate licenses''"

definition license_open :: string where
  \<open>license_open = ''LICENSE+="''\<close>

definition close_quote :: string where
  \<open>close_quote = ''"''\<close>

definition git_open :: string where
  "git_open = ''declare -A GIT_CRATES=(''"

definition git_close :: string where
  "git_close = '')''"

definition inherit_line :: string where
  "inherit_line = ''inherit cargo''"

definition ends_with :: "char \<Rightarrow> string \<Rightarrow> bool" where
  "ends_with c l = (l \<noteq> [] \<and> last l = c)"

text \<open>The opener, then any text, then the closing quote, on one line.\<close>

definition one_line :: "string \<Rightarrow> string \<Rightarrow> bool" where
  "one_line opener l = (prefix opener l \<and> ends_with DQ (drop (length opener) l))"

definition opens_quoted :: "string \<Rightarrow> string \<Rightarrow> bool" where
  "opens_quoted opener l = (l = opener \<or> one_line opener l)"

subsection \<open>The scan\<close>

text \<open>
  Section 9: a stateful single pass over the lines that tags each line as passed through
  or as part of a region to replace. The result lists the pass-through lines and, in
  their places, the regions found. Outside a region a line opens
  \<^item> the dependency list, when it is \<^verbatim>\<open>CRATES="\<close> or a one-line form of it;
  \<^item> the dependent licenses, when it is the marker comment and the next line is
    \<^verbatim>\<open>LICENSE+="\<close> or a one-line form of it;
  \<^item> the git crates, when it is \<^verbatim>\<open>declare -A GIT_CRATES=(\<close>.
  Inside a region every line up to the first that is equal to the close marker belongs
  to it. A region that is open at the end of the text is malformed.
\<close>

datatype segment = PassThrough string | CratesRegion | LicenseRegion | GitRegion

datatype mode = Outside | LicenseOpener | Inside string

definition cons_seg :: "segment \<Rightarrow> error + segment list \<Rightarrow> error + segment list" where
  "cons_seg s r = (case r of Inl e \<Rightarrow> Inl e | Inr segs \<Rightarrow> Inr (s # segs))"

definition next_opens_license :: "string list \<Rightarrow> bool" where
  "next_opens_license ls = (case ls of [] \<Rightarrow> False | l # _ \<Rightarrow> opens_quoted license_open l)"

fun scan :: "mode \<Rightarrow> string list \<Rightarrow> error + segment list" where
  "scan Outside [] = Inr []"
| "scan LicenseOpener [] = Inl (ArtifactStructureError ''unterminated region'')"
| "scan (Inside c) [] = Inl (ArtifactStructureError ''unterminated region'')"
| "scan Outside (l # ls) =
     (if opens_quoted crates_open l then
        cons_seg CratesRegion (scan (if l = crates_open then Inside close_quote else Outside) ls)
      else if l = license_comment \<and> next_opens_license ls then
        cons_seg LicenseRegion (scan LicenseOpener ls)
      else if l = git_open then
        cons_seg GitRegion (scan (Inside git_close) ls)
      else cons_seg (PassThrough l) (scan Outside ls))"
| "scan LicenseOpener (l # ls) =
     scan (if l = license_open then Inside close_quote else Outside) ls"
| "scan (Inside c) (l # ls) = scan (if l = c then Outside else Inside c) ls"

subsection \<open>The structure check\<close>

text \<open>
  Steps 1, 3 and 4: exactly one dependency list; with crate licenses requested exactly
  one dependent-license region; at most one git-crate block. Without crate licenses the
  specification says that the dependent-license region is not looked for, while
  \<^verbatim>\<open>test_update_ebuild_fail_with_crate_license\<close> expects a \<^verbatim>\<open>RuntimeError\<close> for an artifact
  that has one: the test is followed.
\<close>

definition check :: "bool \<Rightarrow> segment list \<Rightarrow> error option" where
  "check includeCrateLicenses segs =
     (if count_list segs CratesRegion = 0
        then Some (ArtifactStructureError ''CRATES variable not found'')
      else if count_list segs CratesRegion > 1
        then Some (ArtifactStructureError ''multiple CRATES variables'')
      else if includeCrateLicenses \<and> count_list segs LicenseRegion = 0
        then Some (ArtifactStructureError ''crate license not found'')
      else if \<not> includeCrateLicenses \<and> count_list segs LicenseRegion > 0
        then Some (ArtifactStructureError ''crate license found'')
      else if count_list segs LicenseRegion > 1
        then Some (ArtifactStructureError ''multiple crate licenses'')
      else if count_list segs GitRegion > 1
        then Some (ArtifactStructureError ''multiple GIT_CRATES variables'')
      else None)"

subsection \<open>The new regions\<close>

text \<open>
  Step 2: one line per non-git dependency, sorted by name and version, or the collapsed
  form.
\<close>

definition crate_line :: "crate \<Rightarrow> string" where
  "crate_line c = TAB # crate_name c @ ''@'' @ crate_version c"

definition file_crates :: "crate list \<Rightarrow> crate list" where
  "file_crates deps = sort_key (\<lambda>c. (crate_name c, crate_version c)) (filter (\<lambda>c. \<not> is_git c) deps)"

definition crates_block :: "crate list \<Rightarrow> string list" where
  \<open>crates_block deps =
     (if file_crates deps = [] then [''CRATES=""'']
      else [''CRATES="''] @ map crate_line (file_crates deps) @ [''"''])\<close>

text \<open>
  Step 3: the marker comment and the addendum, one top-level operand per line, or the
  empty-quoted line.
\<close>

definition license_block :: "string list \<Rightarrow> string list" where
  \<open>license_block operands =
     (if operands = [] then [license_comment, ''LICENSE+=""'']
      else [license_comment, ''LICENSE+="''] @ map (\<lambda>l. TAB # l) operands @ [''"''])\<close>

text \<open>
  Step 4: one entry per git dependency, sorted by name, with the value
  \<^verbatim>\<open>repo;commit;archive-name-%commit%\<close>, where the archive name is the last component of
  the repository URL (as in \<^verbatim>\<open>test_update_git_crates\<close>).
\<close>

definition basename :: "string \<Rightarrow> string" where
  "basename s = rev (takeWhile (\<lambda>c. c \<noteq> CHR ''/'') (rev s))"

fun git_line :: "crate \<Rightarrow> string" where
  "git_line (GitCrate n v r h) =
     TAB # ''['' @ n @ '']='' @ [CHR 0x27] @ r @ '';'' @ h @ '';'' @ basename r @ ''-%commit%'' @ [CHR 0x27]"
| "git_line (FileCrate n v c) = []"

definition git_crates :: "crate list \<Rightarrow> crate list" where
  "git_crates deps = sort_key crate_name (filter is_git deps)"

definition git_block :: "crate list \<Rightarrow> string list" where
  "git_block deps = [git_open] @ map git_line (git_crates deps) @ [git_close]"

subsection \<open>Putting the text together\<close>

text \<open>
  Step 4, the block that is not there: it goes directly before the first pass-through
  line \<^verbatim>\<open>inherit cargo\<close>, followed by a blank line. The specification does not say what
  happens without such a line; here the artifact is then malformed.
\<close>

fun insert_git :: "segment list \<Rightarrow> segment list option" where
  "insert_git [] = None"
| "insert_git (PassThrough l # segs) =
     (if l = inherit_line then Some (GitRegion # PassThrough [] # PassThrough l # segs)
      else map_option (Cons (PassThrough l)) (insert_git segs))"
| "insert_git (s # segs) = map_option (Cons s) (insert_git segs)"

text \<open>A removed git-crate block takes the blank line after it along.\<close>

fun drop_blank :: "segment list \<Rightarrow> segment list" where
  "drop_blank (PassThrough [] # segs) = segs"
| "drop_blank segs = segs"

text \<open>
  Steps 2 to 5: every region is replaced by its new block (the git-crate block by
  nothing when \<open>gb\<close> is \<open>None\<close>), every other line is passed through.
\<close>

function rebuild ::
  "string list \<Rightarrow> string list \<Rightarrow> string list option \<Rightarrow> segment list \<Rightarrow> string list" where
  "rebuild cb lb gb [] = []"
| "rebuild cb lb gb (PassThrough l # segs) = l # rebuild cb lb gb segs"
| "rebuild cb lb gb (CratesRegion # segs) = cb @ rebuild cb lb gb segs"
| "rebuild cb lb gb (LicenseRegion # segs) = lb @ rebuild cb lb gb segs"
| "rebuild cb lb gb (GitRegion # segs) =
     (case gb of
        None \<Rightarrow> rebuild cb lb gb (drop_blank segs)
      | Some b \<Rightarrow> b @ rebuild cb lb gb segs)"
  by pat_completeness auto
termination
proof (relation "measure (\<lambda>(cb, lb, gb, segs). length segs)")
  fix segs :: "segment list"
  have "length (drop_blank segs) \<le> length segs"
    by (induction segs rule: drop_blank.induct) auto
  then show "\<And>cb lb gb. ((cb, lb, gb, drop_blank segs), cb, lb, gb, GitRegion # segs)
      \<in> measure (\<lambda>(cb, lb, gb, segs). length segs)"
    by simp
qed auto

subsection \<open>\<^verbatim>\<open>update\<close>\<close>

text \<open>
  Modelled from the spec: \<^verbatim>\<open>update_ebuild\<close> is missing from \<^verbatim>\<open>src/pycargoebuild/ebuild.py\<close>;
  this is the contract \<^verbatim>\<open>update\<close> of section 4.3. The License Aggregator of section 4.2,
  with the fetching and parsing behind it, is the parameter \<open>aggregate\<close>: for the metadata,
  the dependencies and the fetch directory it fails or gives the top-level operands of the
  simplified combination, already rendered. The structure of the artifact is checked
  before the aggregator runs, and without crate licenses the aggregator does not run.
\<close>

type_synonym aggregator = "package_metadata \<Rightarrow> crate list \<Rightarrow> path \<Rightarrow> error + string list"

definition update ::
  "aggregator \<Rightarrow> string \<Rightarrow> package_metadata \<Rightarrow> crate list \<Rightarrow> path \<Rightarrow> bool \<Rightarrow> error + string" where
  "update aggregate existingText meta deps fetchDir includeCrateLicenses =
     (case scan Outside (split_lines existingText) of
        Inl e \<Rightarrow> Inl e
      | Inr segs \<Rightarrow>
          (case check includeCrateLicenses segs of
             Some e \<Rightarrow> Inl e
           | None \<Rightarrow>
               (case (if includeCrateLicenses then aggregate meta deps fetchDir else Inr []) of
                  Inl e \<Rightarrow> Inl e
                | Inr operands \<Rightarrow>
                    (let gb = (if git_crates deps = [] then None else Some (git_block deps))
                     in case (if gb \<noteq> None \<and> GitRegion \<notin> set segs then insert_git segs
                              else Some segs) of
                          None \<Rightarrow> Inl (ArtifactStructureError ''inherit line not found'')
                        | Some segs' \<Rightarrow>
                            Inr (join_lines
                                  (rebuild (crates_block deps) (license_block operands) gb segs'))))))"

subsection \<open>Notions to state properties of the patcher\<close>






text \<open>The segments of a stretch in front of what the scan finds in the rest.\<close>

definition then_segs :: "segment list \<Rightarrow> error + segment list \<Rightarrow> error + segment list" where
  "then_segs s r = (case r of Inl e \<Rightarrow> Inl e | Inr segs \<Rightarrow> Inr (s @ segs))"


subsection \<open>Concrete artifacts\<close>

text \<open>The artifact of \<^verbatim>\<open>test_update_ebuild\<close> and the text the test expects for it.\<close>

definition old_ebuild :: string where
  \<open>old_ebuild = join_lines
     [''EAPI=8'',
      '''',
      ''CRATES="'',
      (TAB # ''bar-1''),
      (TAB # ''baz-10''),
      ''"'',
      '''',
      ''inherit cargo'',
      '''',
      ''SRC_URI="${{CARGO_CRATE_URIS}}"'',
      '''',
      ''LICENSE="MIT"'',
      ''# Dependent crate licenses'',
      ''LICENSE+=" CC0-1.0"'',
      ''SLOT="0"'',
      ''KEYWORDS="~amd64 ~x86"'',
      '''']\<close>

definition new_ebuild :: string where
  \<open>new_ebuild = join_lines
     [''EAPI=8'',
      '''',
      ''CRATES="'',
      (TAB # ''bar@2''),
      (TAB # ''baz@3''),
      (TAB # ''foo@1''),
      ''"'',
      '''',
      ''inherit cargo'',
      '''',
      ''SRC_URI="${{CARGO_CRATE_URIS}}"'',
      '''',
      ''LICENSE="MIT"'',
      ''# Dependent crate licenses'',
      ''LICENSE+="'',
      (TAB # ''Unicode-DFS-2016''),
      (TAB # ''|| ( BSD MIT )''),
      (TAB # ''|| ( CC0-1.0 Unlicense )''),
      ''"'',
      ''SLOT="0"'',
      ''KEYWORDS="~amd64 ~x86"'',
      '''']\<close>

text \<open>The case \<^verbatim>\<open>double-crates\<close> of \<^verbatim>\<open>BAD_UPDATE_TEST_CASES\<close>.\<close>

definition double_crates :: string where
  \<open>double_crates = join_lines
     [''CRATES=""'',
      ''# Dependent crate licenses'',
      ''LICENSE+=""'',
      ''CRATES=""'',
      '''']\<close>


text \<open>The artifact of \<^verbatim>\<open>test_update_ebuild_no_crate_license\<close> and the text the test expects for it.\<close>

definition old_no_license :: string where
  \<open>old_no_license = join_lines
     [''EAPI=8'',
      '''',
      ''CRATES="'',
      (TAB # ''bar-1''),
      (TAB # ''baz-10''),
      ''"'',
      '''',
      ''inherit cargo'',
      '''',
      ''SRC_URI="${{CARGO_CRATE_URIS}}"'',
      '''',
      ''LICENSE="MIT"'',
      ''SLOT="0"'',
      ''KEYWORDS="~amd64 ~x86"'',
      '''']\<close>

definition new_no_license :: string where
  \<open>new_no_license = join_lines
     [''EAPI=8'',
      '''',
      ''CRATES="'',
      (TAB # ''bar@2''),
      (TAB # ''baz@3''),
      (TAB # ''foo@1''),
      ''"'',
      '''',
      ''inherit cargo'',
      '''',
      ''SRC_URI="${{CARGO_CRATE_URIS}}"'',
      '''',
      ''LICENSE="MIT"'',
      ''SLOT="0"'',
      ''KEYWORDS="~amd64 ~x86"'',
      '''']\<close>

text \<open>The artifacts of \<^verbatim>\<open>test_update_git_crates\<close>, \<^verbatim>\<open>test_update_remove_git_crates\<close> and
  \<^verbatim>\<open>test_update_add_git_crates\<close>: with a stale git-crate block, with the block of the git
  crate of the tests, and without a block.\<close>

definition stale_git_ebuild :: string where
  \<open>stale_git_ebuild = join_lines
     [''EAPI=8'',
      '''',
      ''CRATES="'',
      (TAB # ''bar@2''),
      (TAB # ''baz@3''),
      (TAB # ''foo@1''),
      ''"'',
      '''',
      ''declare -A GIT_CRATES=('',
      (TAB # (''[else]='' @ [CHR 0x27] @ ''total-junk-here'' @ [CHR 0x27] @ '''')),
      (TAB # (''[something]='' @ [CHR 0x27] @ ''https://github.com/projg2/pycargoebuild;5ace474ad2e92da836de60afd9014cbae7bdd481;pycargoebuild-%commit%'' @ [CHR 0x27] @ '''')),
      '')'',
      '''',
      ''inherit cargo'',
      '''',
      ''LICENSE="|| ( Apache-2.0 MIT )"'',
      ''# Dependent crate licenses'',
      ''LICENSE+="'',
      (TAB # ''MIT Unicode-DFS-2016''),
      (TAB # ''|| ( CC0-1.0 Unlicense )''),
      ''"'',
      '''']\<close>

definition git_ebuild :: string where
  \<open>git_ebuild = join_lines
     [''EAPI=8'',
      '''',
      ''CRATES="'',
      (TAB # ''bar@2''),
      (TAB # ''baz@3''),
      (TAB # ''foo@1''),
      ''"'',
      '''',
      ''declare -A GIT_CRATES=('',
      (TAB # (''[test]='' @ [CHR 0x27] @ ''https://github.com/projg2/pycargoebuild;5ace474ad2e92da836de60afd9014cbae7bdd481;pycargoebuild-%commit%'' @ [CHR 0x27] @ '''')),
      '')'',
      '''',
      ''inherit cargo'',
      '''',
      ''LICENSE="|| ( Apache-2.0 MIT )"'',
      ''# Dependent crate licenses'',
      ''LICENSE+="'',
      (TAB # ''MIT Unicode-DFS-2016''),
      (TAB # ''|| ( CC0-1.0 Unlicense )''),
      ''"'',
      '''']\<close>

definition no_git_ebuild :: string where
  \<open>no_git_ebuild = join_lines
     [''EAPI=8'',
      '''',
      ''CRATES="'',
      (TAB # ''bar@2''),
      (TAB # ''baz@3''),
      (TAB # ''foo@1''),
      ''"'',
      '''',
      ''inherit cargo'',
      '''',
      ''LICENSE="|| ( Apache-2.0 MIT )"'',
      ''# Dependent crate licenses'',
      ''LICENSE+="'',
      (TAB # ''MIT Unicode-DFS-2016''),
      (TAB # ''|| ( CC0-1.0 Unlicense )''),
      ''"'',
      '''']\<close>

definition removed_git_ebuild :: string where
  \<open>removed_git_ebuild = join_lines
     [''EAPI=8'',
      '''',
      ''CRATES="'',
      (TAB # ''bar@2''),
      (TAB # ''baz@3''),
      (TAB # ''foo@1''),
      ''"'',
      '''',
      ''inherit cargo'',
      '''',
      ''LICENSE="|| ( Apache-2.0 MIT )"'',
      ''# Dependent crate licenses'',
      ''LICENSE+="'',
      (TAB # ''Unicode-DFS-2016''),
      (TAB # ''|| ( BSD MIT )''),
      (TAB # ''|| ( CC0-1.0 Unlicense )''),
      ''"'',
      '''']\<close>

text \<open>The other cases of \<^verbatim>\<open>BAD_UPDATE_TEST_CASES\<close>.\<close>

definition bad_empty :: string where
  \<open>bad_empty = join_lines
     ['''']\<close>

definition bad_no_crates :: string where
  \<open>bad_no_crates = join_lines
     [''# Dependent crate licenses'',
      ''LICENSE+=""'',
      '''']\<close>

definition bad_double_license :: string where
  \<open>bad_double_license = join_lines
     [''CRATES=""'',
      ''# Dependent crate licenses'',
      ''LICENSE+=""'',
      ''# Dependent crate licenses'',
      ''LICENSE+=""'',
      '''']\<close>

definition bad_no_license :: string where
  \<open>bad_no_license = join_lines
     [''CRATES=""'',
      '''']\<close>

definition bad_no_license_comment :: string where
  \<open>bad_no_license_comment = join_lines
     [''CRATES=""'',
      ''LICENSE+=""'',
      '''']\<close>

text \<open>
  The fixtures of the tests: the three crates, the git crate, the metadata, and an
  aggregator that gives the addenda the tests expect for them.
\<close>

definition crates3 :: "crate list" where
  "crates3 = [FileCrate ''foo'' ''1'' '''', FileCrate ''bar'' ''2'' '''', FileCrate ''baz'' ''3'' '''']"

definition crates_plus_git :: "crate list" where
  "crates_plus_git = crates3 @
     [GitCrate ''test'' ''0.1'' ''https://github.com/projg2/pycargoebuild''
        ''5ace474ad2e92da836de60afd9014cbae7bdd481'']"

definition pkg_meta :: package_metadata where
  "pkg_meta = \<lparr>pm_name = ''foo'', pm_version = ''1.2.3'', pm_license = Some ''Apache-2.0 OR MIT'',
     pm_description = Some ''Test package'', pm_homepage = Some ''https://example.com''\<rparr>"

definition demo_aggregate :: aggregator where
  "demo_aggregate meta deps fetchDir =
     (if deps = [] then Inr []
      else if list_ex is_git deps then Inr [''MIT Unicode-DFS-2016'', ''|| ( CC0-1.0 Unlicense )'']
      else Inr [''Unicode-DFS-2016'', ''|| ( BSD MIT )'', ''|| ( CC0-1.0 Unlicense )''])"

section \<open>Properties\<close>

subsection \<open>Helper lemmas\<close>

lemma py_replace_char:
  "py_replace [a] new s = concat (map (\<lambda>c. if c = a then new else [c]) s)"
  by (induction s) auto

lemma set_join: "set (join sep xs) \<subseteq> set sep \<union> (\<Union>x \<in> set xs. set x)"
  by (induction sep xs rule: join.induct) auto

lemma set_render: "set (render b t) \<subseteq> (\<Union>a \<in> atoms t. set a) \<union> set ''|( )''"
proof (induction t arbitrary: b)
  case (Atom a)
  show ?case by auto
next
  case (AndNode ts)
  have "set (join '' '' (map (render False) ts)) \<subseteq> (\<Union>a \<in> atoms (AndNode ts). set a) \<union> set ''|( )''"
    using set_join [of "'' ''" "map (render False) ts"] AndNode.IH [of _ False] by fastforce
  then show ?case by auto
next
  case (OrNode ts)
  have "set (join '' '' (map (render True) ts)) \<subseteq> (\<Union>a \<in> atoms (OrNode ts). set a) \<union> set ''|( )''"
    using set_join [of "'' ''" "map (render True) ts"] OrNode.IH [of _ True] by fastforce
  then show ?case by auto
qed

lemma read_loop_concat: "concat (read_loop rest fed) = concat fed @ rest"
proof (induction rest fed rule: read_loop.induct)
  case (1 rest fed)
  show ?case
  proof (cases "min buffer_size (length rest) = 0")
    case True
    then have "rest = []" by (auto simp: buffer_size_def min_def split: if_splits)
    with True show ?thesis by (subst read_loop.simps) simp
  next
    case False
    then show ?thesis
      using "1.IH" [OF refl False]
      by (subst read_loop.simps) (simp add: Let_def)
  qed
qed

lemma file_hexdigest_full: "file_hexdigest E content = hexdigest E content"
  by (simp add: file_hexdigest_def read_loop_concat)

lemma fetch_present:
  "files st path = Some content \<Longrightarrow> fetch E path url st = (True, st)"
  by (simp add: fetch_def)

lemma fetch_downloads:
  "fetch E path url st = (ok, st') \<Longrightarrow> length (downloads st') \<le> Suc (length (downloads st))"
  by (auto simp: fetch_def split: option.splits prod.splits)

text \<open>
  The set of collected licenses: adding and discarding act on the elements only, so the
  code fixes the operands of the combined expression up to their order.
\<close>

lemma set_add_set: "set (set_add x xs) = insert x (set xs)"
  by (auto simp: set_add_def)

lemma set_add_distinct: "distinct xs \<Longrightarrow> distinct (set_add x xs)"
  by (simp add: set_add_def)

lemma set_discard_set: "set (set_discard x xs) = set xs - {x}"
  by (auto simp: set_discard_def)

lemma fold_set_add_set: "set (fold set_add ls acc) = set acc \<union> set ls"
  by (induction ls arbitrary: acc) (auto simp: set_add_set)

lemma demo_crate_path: "crate_path demo_dist ''x'' ''1'' = ''dist/x-1.crate''"
  by (simp add: crate_path_def demo_dist_def segments_def)

text \<open>With the current directory as the cache directory the path is the bare file name.\<close>

lemma crate_path_dot: "crate_path (Path [] []) ''x'' ''1'' = ''x-1.crate''"
  by (simp add: crate_path_def segments_def)

lemma parse_path_examples:
  "path_str (parse_path ''.'') = ''.''"
  "path_str (parse_path ''/'') = ''/''"
  "path_str (parse_path ''dist/'') = ''dist''"
  "path_str (parse_path ''//a//b/./c/'') = ''//a/b/c''"
  "path_str (parse_path ''///a'') = ''/a''"
  "path_str (path_div (parse_path ''/'') ''x-1.crate'') = ''/x-1.crate''"
  "path_str (path_div (parse_path ''dist'') ''/abs.crate'') = ''/abs.crate''"
  by (simp_all add: parse_path_def root_of_def segments_def)

lemma fetch_all_step:
  assumes "fetch E (crate_path d p v) (crate_url p v) st = (True, st')"
      and "files st' (crate_path d p v) = Some content"
  shows "fetch_all E d ((p, v, csum) # deps) ls st =
           (if hexdigest E content = csum
            then (case crate_license E p v content of
                    Inl e \<Rightarrow> (Inl e, st')
                  | Inr l \<Rightarrow> fetch_all E d deps (set_add l ls) st')
            else (Inl (AssertionError (mismatch_msg (crate_path d p v) (hexdigest E content) csum)), st'))"
  using assms by (simp add: verify_def file_hexdigest_full)

lemma all_cached_state_unchanged:
  "\<forall>(p, v, c) \<in> set deps. crate_path d p v \<in> dom (files st) \<Longrightarrow>
     snd (fetch_all E d deps ls st) = st"
proof (induction deps arbitrary: ls)
  case Nil
  show ?case by simp
next
  case (Cons x deps)
  obtain p v c where x: "x = (p, v, c)" by (cases x)
  from Cons.prems x obtain content where f: "files st (crate_path d p v) = Some content"
    by auto
  from Cons.prems have rest: "\<forall>(p, v, c) \<in> set deps. crate_path d p v \<in> dom (files st)" by simp
  show ?case
    using Cons.IH [OF rest] f unfolding x
    by (simp add: fetch_present split: sum.splits)
qed

lemmas run_defs = get_ebuild_def demo_env_def demo_state_def demo_toml_def x_lock_def
  final_license_def combined_license_def set_discard_def set_add_def
  demo_crate_path fetch_def verify_def file_hexdigest_full crate_url_def
  crate_license_def cargo_to_spdx_def render_ebuild_def Let_def

subsection \<open>The dependency list of a fresh ebuild\<close>

text \<open>
  C3. The claim asks for one line per dependency, sorted by name and version, each a tab
  followed by name, \<^verbatim>\<open>@\<close> and version, and for an empty-quoted line when there is no
  dependency. \<^verbatim>\<open>get_ebuild\<close> keeps the order of the lock file, joins name and version with
  \<^verbatim>\<open>-\<close>, and for no dependency gives the empty string, which the template puts between
  two line breaks: for the lock file that lists \<^verbatim>\<open>foo 1\<close> before \<^verbatim>\<open>bar 2\<close> the block is
  \<^verbatim>\<open>\tfoo-1\n\tbar-2\<close>, where the claim and \<^verbatim>\<open>test_get_ebuild\<close> expect
  \<^verbatim>\<open>\tbar@2\n\tfoo@1\<close>.
\<close>

theorem crates_in_lock_order_with_dash:
  "get_deps [''name'' \<mapsto> ''app''] foo_bar_lock = Inr [(''foo'', ''1'', ''''), (''bar'', ''2'', '''')]
   \<and> crates_str [(''foo'', ''1'', ''''), (''bar'', ''2'', '''')] = TAB # ''foo-1'' @ NL # TAB # ''bar-2''
   \<and> crates_str [] = []"
  by (simp add: foo_bar_lock_def crates_str_def)

subsection \<open>The legacy dialect\<close>

lemma cargo_to_spdx_set: "CHR ''/'' \<notin> set (cargo_to_spdx s)"
  by (induction s) (auto simp: cargo_to_spdx_def py_replace_char)

lemma crate_license_no_slash:
  "crate_license E p v content = Inr l \<Longrightarrow> CHR ''/'' \<notin> set l"
  by (auto simp: crate_license_def cargo_to_spdx_set split: sum.splits option.splits if_splits)

lemma fetch_all_no_slash:
  "fetch_all E d deps ls st = (Inr ls', st') \<Longrightarrow> \<forall>l \<in> set ls. CHR ''/'' \<notin> set l \<Longrightarrow>
     \<forall>l \<in> set ls'. CHR ''/'' \<notin> set l"
proof (induction deps arbitrary: ls st)
  case Nil
  then show ?case by simp
next
  case (Cons x deps)
  obtain p v csum where x: "x = (p, v, csum)" by (cases x)
  obtain ok st1 where f: "fetch E (crate_path d p v) (crate_url p v) st = (ok, st1)"
    by (cases "fetch E (crate_path d p v) (crate_url p v) st")
  from Cons.prems(1) x f obtain content l where
    "crate_license E p v content = Inr l"
    "fetch_all E d deps (set_add l ls) st1 = (Inr ls', st')"
    by (auto simp: Let_def split: if_splits sum.splits)
  moreover have "\<forall>l' \<in> set (set_add l ls). CHR ''/'' \<notin> set l'"
  proof
    fix l' assume "l' \<in> set (set_add l ls)"
    then have "l' = l \<or> l' \<in> set ls" by (auto simp: set_add_def split: if_splits)
    with crate_license_no_slash [OF calculation(1)] Cons.prems(2)
    show "CHR ''/'' \<notin> set l'" by blast
  qed
  ultimately show ?case using Cons.IH by blast
qed

lemma combined_license_no_slash:
  "\<forall>l \<in> set ls. CHR ''/'' \<notin> set l \<Longrightarrow> CHR ''/'' \<notin> set (combined_license ls)"
proof
  assume a: "\<forall>l \<in> set ls. CHR ''/'' \<notin> set l" and b: "CHR ''/'' \<in> set (combined_license ls)"
  from b set_join [of "'' AND ''" "map (\<lambda>x. ''( '' @ x @ '' )'') ls"]
  have "CHR ''/'' \<in> set '' AND '' \<union> (\<Union>x \<in> set (map (\<lambda>x. ''( '' @ x @ '' )'') ls). set x)"
    unfolding combined_license_def by blast
  then obtain x where "x \<in> set ls" "CHR ''/'' \<in> set (''( '' @ x @ '' )'')"
    by (auto simp del: UN_simps)
  with a show False by auto
qed

text \<open>
  C4. \<^verbatim>\<open>cargo_to_spdx\<close> is the substitution, character by character, of \<^verbatim>\<open> OR \<close> for every
  \<^verbatim>\<open>/\<close>, and its result contains no \<^verbatim>\<open>/\<close>. \<^verbatim>\<open>get_ebuild\<close> applies it before parsing: the
  combined expression that it hands to the parser for the licenses collected from the
  crates contains no \<^verbatim>\<open>/\<close>. And the rendering of any tree whose atoms are made of
  characters of a converted string contains no \<^verbatim>\<open>/\<close> either.
\<close>

theorem cargo_to_spdx_no_slash:
  "cargo_to_spdx s = concat (map (\<lambda>c. if c = CHR ''/'' then '' OR '' else [c]) s)
   \<and> CHR ''/'' \<notin> set (cargo_to_spdx s)
   \<and> (fetch_all E d deps [] st = (Inr ls, st') \<longrightarrow>
        CHR ''/'' \<notin> set (combined_license (set_discard pkg_license ls)))
   \<and> ((\<forall>a \<in> atoms t. set a \<subseteq> set (cargo_to_spdx s)) \<longrightarrow> CHR ''/'' \<notin> set (render b t))"
proof (intro conjI impI)
  show "cargo_to_spdx s = concat (map (\<lambda>c. if c = CHR ''/'' then '' OR '' else [c]) s)"
    by (simp add: cargo_to_spdx_def py_replace_char)
  show "CHR ''/'' \<notin> set (cargo_to_spdx s)"
    by (rule cargo_to_spdx_set)
next
  assume "fetch_all E d deps [] st = (Inr ls, st')"
  then have "\<forall>l \<in> set ls. CHR ''/'' \<notin> set l"
    by (rule fetch_all_no_slash) simp
  then have "\<forall>l \<in> set (set_discard pkg_license ls). CHR ''/'' \<notin> set l"
    by (simp add: set_discard_def)
  then show "CHR ''/'' \<notin> set (combined_license (set_discard pkg_license ls))"
    by (rule combined_license_no_slash)
next
  assume a: "\<forall>a \<in> atoms t. set a \<subseteq> set (cargo_to_spdx s)"
  show "CHR ''/'' \<notin> set (render b t)"
  proof
    assume "CHR ''/'' \<in> set (render b t)"
    then have "CHR ''/'' \<in> (\<Union>a \<in> atoms t. set a)"
      using set_render [of b t] by auto
    with a cargo_to_spdx_set [of s] show False by auto
  qed
qed

theorem cargo_to_spdx_no_slash_witness:
  "cargo_to_spdx ''MIT/Apache-2.0'' = ''MIT OR Apache-2.0''
   \<and> fetch_all demo_env demo_dist [(''x'', ''1'', sha256_empty)] [] demo_state
       = (Inr [''MIT OR Apache-2.0''], demo_state)
   \<and> combined_license (set_discard ''MIT'' [''MIT OR Apache-2.0'']) = ''( MIT OR Apache-2.0 )''
   \<and> CHR ''/'' \<notin> set (combined_license (set_discard ''MIT'' [''MIT OR Apache-2.0'']))
   \<and> atoms (OrNode [Atom ''MIT'', Atom ''Apache-2.0'']) = {''MIT'', ''Apache-2.0''}
   \<and> render False (OrNode [Atom ''MIT'', Atom ''Apache-2.0'']) = ''|| ( MIT Apache-2.0 )''
   \<and> CHR ''/'' \<notin> set (render False (OrNode [Atom ''MIT'', Atom ''Apache-2.0'']))"
proof -
  have c: "cargo_to_spdx ''MIT/Apache-2.0'' = ''MIT OR Apache-2.0''"
    by (simp add: cargo_to_spdx_def)
  have f: "fetch_all demo_env demo_dist [(''x'', ''1'', sha256_empty)] [] demo_state
       = (Inr [''MIT OR Apache-2.0''], demo_state)"
    by (simp add: run_defs)
  have j: "combined_license (set_discard ''MIT'' [''MIT OR Apache-2.0'']) = ''( MIT OR Apache-2.0 )''"
    by (simp add: combined_license_def set_discard_def)
  have h: "\<forall>a \<in> atoms (OrNode [Atom ''MIT'', Atom ''Apache-2.0'']).
             set a \<subseteq> set (cargo_to_spdx ''MIT/Apache-2.0'')"
    unfolding c by simp
  have a: "atoms (OrNode [Atom ''MIT'', Atom ''Apache-2.0'']) = {''MIT'', ''Apache-2.0''}"
    by auto
  have r: "render False (OrNode [Atom ''MIT'', Atom ''Apache-2.0'']) = ''|| ( MIT Apache-2.0 )''"
    by simp
  note inst = cargo_to_spdx_no_slash
    [of "''MIT/Apache-2.0''" demo_env demo_dist "[(''x'', ''1'', sha256_empty)]" demo_state
        "[''MIT OR Apache-2.0'']" demo_state "''MIT''" "OrNode [Atom ''MIT'', Atom ''Apache-2.0'']" False]
  from inst f have 1: "CHR ''/'' \<notin> set (combined_license (set_discard ''MIT'' [''MIT OR Apache-2.0'']))"
    by blast
  from inst h have 2: "CHR ''/'' \<notin> set (render False (OrNode [Atom ''MIT'', Atom ''Apache-2.0'']))"
    by blast
  from c f j 1 a r 2 show ?thesis by blast
qed

subsection \<open>No dependent license\<close>

text \<open>
  C5. The claim asks that an empty combination of dependency licenses is rendered as the
  empty string and that the operation succeeds. In \<^verbatim>\<open>get_ebuild\<close> an empty set of licenses
  gives the empty expression string, for which the parser returns \<^verbatim>\<open>None\<close>, and the call
  of \<^verbatim>\<open>simplify\<close> on it fails: both with no dependency at all, and with one dependency
  whose license is the package's own. In any environment the outcome for the empty set
  is that of the parser on the empty string: there is no branch of its own for it.
\<close>

theorem no_dependent_license_fails:
  "get_ebuild demo_env (demo_toml ''MIT'') \<lparr>lock_version = Some 3, lock_package = Some []\<rparr>
       demo_dist demo_state
     = (Inl (AttributeError ''simplify''), demo_state)
   \<and> get_ebuild demo_env (demo_toml ''MIT OR Apache-2.0'') (x_lock sha256_empty) demo_dist demo_state
     = (Inl (AttributeError ''simplify''), demo_state)
   \<and> final_license E pkg_license [] =
       (case parse E [] of
          Inl e \<Rightarrow> Inl e
        | Inr None \<Rightarrow> Inl (AttributeError ''simplify'')
        | Inr (Some parsed_license) \<Rightarrow> Inr (simplify E parsed_license))"
  by (simp add: run_defs)

subsection \<open>Checksums\<close>

lemma get_ebuild_loop:
  assumes "cargo_toml ''package'' = Some pkgmeta"
      and "''license_file'' \<notin> dom pkgmeta"
      and "pkgmeta ''license'' = Some pkg_license"
      and "parse E pkg_license = Inr parsed_pkg_license"
      and "lock_version cargo_lock = Some 3"
      and "lock_package cargo_lock = Some packages"
      and "get_deps pkgmeta packages = Inr deps"
      and "fetch_all E distdir deps [] st = (Inl e, st')"
  shows "get_ebuild E cargo_toml cargo_lock distdir st = (Inl e, st')"
  using assms by (simp add: get_ebuild_def)

lemma fetch_absent:
  assumes "files st path = None" and "wget E url = (ok, content)"
  shows "fetch E path url st =
           (ok, st\<lparr>files := (files st)(path := content), downloads := downloads st @ [url]\<rparr>)"
  using assms by (simp add: fetch_def)

text \<open>
  C8, as the claim states it, fails: the digest is compared with \<^verbatim>\<open>==\<close>. The archive of
  \<^verbatim>\<open>x 1\<close> is not in the cache directory and is downloaded; the declared checksum is the
  digest of the downloaded file in upper case, equal to it when case is ignored; and the
  run fails with the mismatch.
\<close>

theorem case_insensitive_counterexample:
  "files empty_state (crate_path demo_dist ''x'' ''1'') = None
   \<and> wget download_env (crate_url ''x'' ''1'') = (True, Some [])
   \<and> lower ''E3B0C44298FC1C149AFBF4C8996FB92427AE41E4649B934CA495991B7852B855''
       = lower (file_hexdigest download_env [])
   \<and> get_ebuild download_env (demo_toml ''MIT'')
        (x_lock ''E3B0C44298FC1C149AFBF4C8996FB92427AE41E4649B934CA495991B7852B855'')
        demo_dist empty_state =
     (Inl (AssertionError (mismatch_msg ''dist/x-1.crate'' sha256_empty
        ''E3B0C44298FC1C149AFBF4C8996FB92427AE41E4649B934CA495991B7852B855'')),
      \<lparr>files = [''dist/x-1.crate'' \<mapsto> []], downloads = [crate_url ''x'' ''1'']\<rparr>)"
proof -
  have "lower ''E3B0C44298FC1C149AFBF4C8996FB92427AE41E4649B934CA495991B7852B855'' = sha256_empty"
    by code_simp
  moreover have "lower (file_hexdigest download_env []) = sha256_empty"
    unfolding file_hexdigest_full by (simp add: download_env_def demo_env_def) code_simp
  ultimately show ?thesis
    by (simp add: run_defs download_env_def empty_state_def sha256_empty_def)
qed

text \<open>
  C8, amended. For every dependency archive that is fetched (it is not in the cache
  directory, and the download succeeds and leaves a file), the digest that the read loop
  computes over buffers of 128 KiB is the digest of the whole file, and it is compared
  with the declared checksum for equality as strings, case included: when they differ,
  the loop ends at once with an assertion failure whose message carries the path, the
  digest and the checksum, after exactly one download, and the run returns that
  failure; when they are equal the loop goes on with the archive's manifest.
\<close>

theorem fetched_checksum_compared_exactly:
  assumes "files st (crate_path d p v) = None"
      and "wget E (crate_url p v) = (True, Some content)"
  shows "file_hexdigest E content = hexdigest E content
     \<and> fetch_all E d ((p, v, csum) # deps) ls st =
         (let st' = st\<lparr>files := (files st)(crate_path d p v \<mapsto> content),
                         downloads := downloads st @ [crate_url p v]\<rparr>
          in if hexdigest E content = csum
             then (case crate_license E p v content of
                     Inl e \<Rightarrow> (Inl e, st')
                   | Inr l \<Rightarrow> fetch_all E d deps (set_add l ls) st')
             else (Inl (AssertionError
                     (mismatch_msg (crate_path d p v) (hexdigest E content) csum)), st'))
     \<and> (cargo_toml ''package'' = Some pkgmeta \<and> ''license_file'' \<notin> dom pkgmeta \<and>
         pkgmeta ''license'' = Some pkg_license \<and> parse E pkg_license = Inr parsed_pkg_license \<and>
         lock_version cargo_lock = Some 3 \<and> lock_package cargo_lock = Some packages \<and>
         get_deps pkgmeta packages = Inr ((p, v, csum) # deps) \<and> hexdigest E content \<noteq> csum \<longrightarrow>
         get_ebuild E cargo_toml cargo_lock d st =
           (Inl (AssertionError (mismatch_msg (crate_path d p v) (hexdigest E content) csum)),
            st\<lparr>files := (files st)(crate_path d p v \<mapsto> content),
                downloads := downloads st @ [crate_url p v]\<rparr>))"
proof -
  let ?st = "st\<lparr>files := (files st)(crate_path d p v \<mapsto> content),
                  downloads := downloads st @ [crate_url p v]\<rparr>"
  have f: "fetch E (crate_path d p v) (crate_url p v) st = (True, ?st)"
    using fetch_absent [OF assms] by simp
  have g: "files ?st (crate_path d p v) = Some content" by simp
  have step: "fetch_all E d ((p, v, csum) # deps) ls st =
         (if hexdigest E content = csum
          then (case crate_license E p v content of
                  Inl e \<Rightarrow> (Inl e, ?st)
                | Inr l \<Rightarrow> fetch_all E d deps (set_add l ls) ?st)
          else (Inl (AssertionError
                  (mismatch_msg (crate_path d p v) (hexdigest E content) csum)), ?st))" for ls
    using fetch_all_step [OF f g] .
  have run: "get_ebuild E cargo_toml cargo_lock d st =
           (Inl (AssertionError (mismatch_msg (crate_path d p v) (hexdigest E content) csum)), ?st)"
    if "cargo_toml ''package'' = Some pkgmeta" "''license_file'' \<notin> dom pkgmeta"
       "pkgmeta ''license'' = Some pkg_license" "parse E pkg_license = Inr parsed_pkg_license"
       "lock_version cargo_lock = Some 3" "lock_package cargo_lock = Some packages"
       "get_deps pkgmeta packages = Inr ((p, v, csum) # deps)" "hexdigest E content \<noteq> csum"
  proof -
    have fa: "fetch_all E d ((p, v, csum) # deps) [] st =
            (Inl (AssertionError (mismatch_msg (crate_path d p v) (hexdigest E content) csum)), ?st)"
      using step [of "[]"] that(8) by simp
    from that(1-7) fa show ?thesis by (rule get_ebuild_loop)
  qed
  show ?thesis
    using step [of ls] run by (simp add: file_hexdigest_full Let_def)
qed

theorem fetched_checksum_compared_exactly_witness:
  "files empty_state (crate_path demo_dist ''x'' ''1'') = None
   \<and> wget download_env (crate_url ''x'' ''1'') = (True, Some [])
   \<and> hexdigest download_env [] = sha256_empty
   \<and> fetch_all download_env demo_dist [(''x'', ''1'', ''00'')] [] empty_state =
       (Inl (AssertionError (mismatch_msg ''dist/x-1.crate'' sha256_empty ''00'')),
        \<lparr>files = [''dist/x-1.crate'' \<mapsto> []], downloads = [crate_url ''x'' ''1'']\<rparr>)
   \<and> get_ebuild download_env (demo_toml ''MIT'') (x_lock ''00'') demo_dist empty_state =
       (Inl (AssertionError (mismatch_msg ''dist/x-1.crate'' sha256_empty ''00'')),
        \<lparr>files = [''dist/x-1.crate'' \<mapsto> []], downloads = [crate_url ''x'' ''1'']\<rparr>)
   \<and> fetch_all download_env demo_dist [(''x'', ''1'', sha256_empty)] [] empty_state =
       (Inr [''MIT OR Apache-2.0''],
        \<lparr>files = [''dist/x-1.crate'' \<mapsto> []], downloads = [crate_url ''x'' ''1'']\<rparr>)"
proof -
  have a: "files empty_state (crate_path demo_dist ''x'' ''1'') = None"
    by (simp add: empty_state_def)
  have w: "wget download_env (crate_url ''x'' ''1'') = (True, Some [])"
    by (simp add: download_env_def)
  have h: "hexdigest download_env [] = sha256_empty"
    by (simp add: download_env_def demo_env_def)
  have n: "sha256_empty \<noteq> ''00''"
    by (simp add: sha256_empty_def)
  have l: "crate_license download_env ''x'' ''1'' [] = Inr ''MIT OR Apache-2.0''"
    by (simp add: crate_license_def download_env_def demo_env_def cargo_to_spdx_def)
  have st: "empty_state\<lparr>files := (files empty_state)(crate_path demo_dist ''x'' ''1'' \<mapsto> []),
              downloads := downloads empty_state @ [crate_url ''x'' ''1'']\<rparr>
            = \<lparr>files = [''dist/x-1.crate'' \<mapsto> []], downloads = [crate_url ''x'' ''1'']\<rparr>"
    by (simp add: empty_state_def demo_crate_path)
  have pre: "demo_toml ''MIT'' ''package''
        = Some [''name'' \<mapsto> ''app'', ''license'' \<mapsto> ''MIT'', ''homepage'' \<mapsto> ''https://example.com'']"
    "''license_file'' \<notin> dom [''name'' \<mapsto> ''app'', ''license'' \<mapsto> ''MIT'', ''homepage'' \<mapsto> ''https://example.com'']"
    "[''name'' \<mapsto> ''app'', ''license'' \<mapsto> ''MIT'', ''homepage'' \<mapsto> ''https://example.com''] ''license'' = Some ''MIT''"
    "parse download_env ''MIT'' = Inr (Some ''MIT'')"
    "lock_version (x_lock ''00'') = Some 3"
    "lock_package (x_lock ''00'') = Some [[''name'' \<mapsto> ''x'', ''version'' \<mapsto> ''1'', ''checksum'' \<mapsto> ''00'']]"
    "get_deps [''name'' \<mapsto> ''app'', ''license'' \<mapsto> ''MIT'', ''homepage'' \<mapsto> ''https://example.com'']
       [[''name'' \<mapsto> ''x'', ''version'' \<mapsto> ''1'', ''checksum'' \<mapsto> ''00'']] = Inr [(''x'', ''1'', ''00'')]"
    by (simp_all add: demo_toml_def x_lock_def download_env_def demo_env_def)
  note bad = fetched_checksum_compared_exactly [OF a w, of "''00''" "[]" "[]"
      "demo_toml ''MIT''"
      "[''name'' \<mapsto> ''app'', ''license'' \<mapsto> ''MIT'', ''homepage'' \<mapsto> ''https://example.com'']"
      "''MIT''" "Some ''MIT''" "x_lock ''00''"
      "[[''name'' \<mapsto> ''x'', ''version'' \<mapsto> ''1'', ''checksum'' \<mapsto> ''00'']]"]
  note good = fetched_checksum_compared_exactly [OF a w, of sha256_empty "[]" "[]"]
  have 1: "fetch_all download_env demo_dist [(''x'', ''1'', ''00'')] [] empty_state =
       (Inl (AssertionError (mismatch_msg ''dist/x-1.crate'' sha256_empty ''00'')),
        \<lparr>files = [''dist/x-1.crate'' \<mapsto> []], downloads = [crate_url ''x'' ''1'']\<rparr>)"
    using bad h n st by (simp add: Let_def demo_crate_path)
  have 2: "get_ebuild download_env (demo_toml ''MIT'') (x_lock ''00'') demo_dist empty_state =
       (Inl (AssertionError (mismatch_msg ''dist/x-1.crate'' sha256_empty ''00'')),
        \<lparr>files = [''dist/x-1.crate'' \<mapsto> []], downloads = [crate_url ''x'' ''1'']\<rparr>)"
    using bad pre h n st by (simp add: demo_crate_path)
  have 3: "fetch_all download_env demo_dist [(''x'', ''1'', sha256_empty)] [] empty_state =
       (Inr [''MIT OR Apache-2.0''],
        \<lparr>files = [''dist/x-1.crate'' \<mapsto> []], downloads = [crate_url ''x'' ''1'']\<rparr>)"
    using good h l st by (simp add: Let_def demo_crate_path set_add_def)
  from a w h 1 2 3 show ?thesis by blast
qed

subsection \<open>Archives already in the cache\<close>

lemma cached_crate_step:
  assumes "files st (crate_path d p v) = Some content"
  shows "fetch E (crate_path d p v) (crate_url p v) st = (True, st)
     \<and> fetch_all E d ((p, v, csum) # deps) ls st =
         (if file_hexdigest E content = csum
          then (case crate_license E p v content of
                  Inl e \<Rightarrow> (Inl e, st)
                | Inr l \<Rightarrow> fetch_all E d deps (set_add l ls) st)
          else (Inl (AssertionError (mismatch_msg (crate_path d p v) (file_hexdigest E content) csum)), st))"
  using assms by (simp add: fetch_present verify_def)

text \<open>
  C9. The claim asks that an archive already present in the cache directory is trusted:
  no download, and no verification of its checksum. The fixtures of \<^verbatim>\<open>test_ebuild.py\<close> are
  such archives, declared with the empty checksum, for which \<^verbatim>\<open>test_get_ebuild\<close> expects a
  text. \<^verbatim>\<open>get_ebuild\<close> skips the download only: with the archive of \<^verbatim>\<open>x 1\<close> in the cache
  directory and the empty checksum declared, it makes no download, computes the digest of
  the cached file and fails with the mismatch.
\<close>

theorem cached_crate_verified:
  "files demo_state (crate_path demo_dist ''x'' ''1'') = Some []
   \<and> get_ebuild demo_env (demo_toml ''MIT'') (x_lock '''') demo_dist demo_state =
      (Inl (AssertionError (mismatch_msg ''dist/x-1.crate'' sha256_empty '''')), demo_state)
   \<and> downloads demo_state = []"
  by (simp add: run_defs sha256_empty_def)

subsection \<open>Absent fields of the manifest\<close>

text \<open>
  C10. The claim asks that an absent description, homepage or license is rendered as the
  empty string. \<^verbatim>\<open>get_ebuild\<close> does so for the description only: a manifest without a
  license fails with \<^verbatim>\<open>KeyError\<close> at the lookup of line 64, whatever the environment, the
  lock file and the cache, and a manifest without a homepage fails at the lookup of
  line 110.
\<close>

theorem absent_license_or_homepage_fails:
  "fst (get_ebuild E [''package'' \<mapsto> [''name'' \<mapsto> ''foo'', ''version'' \<mapsto> ''1.2.3'']] lock d st)
     = Inl (KeyError ''license'')
   \<and> get_ebuild demo_env
       [''package'' \<mapsto> [''name'' \<mapsto> ''foo'', ''version'' \<mapsto> ''1.2.3'', ''license'' \<mapsto> ''MIT'']]
       (x_lock sha256_empty) demo_dist demo_state
     = (Inl (KeyError ''homepage''), demo_state)"
  by (simp add: run_defs)

subsection \<open>Lines\<close>

lemma split_lines_Nil [simp]: "split_lines [] = [[]]"
  by (simp add: split_lines_def)

lemma split_lines_Cons [simp]:
  "split_lines (c # cs) =
     (if c = NL then [] # split_lines cs
      else (case split_lines cs of [] \<Rightarrow> [[c]] | l # ls \<Rightarrow> (c # l) # ls))"
  by (simp add: split_lines_def)

lemma split_lines_nonempty [simp]: "split_lines s \<noteq> []"
  by (induction s) (auto split: list.splits)

lemma join_split: "join_lines (split_lines s) = s"
proof (induction s)
  case Nil
  show ?case by (simp add: join_lines_def)
next
  case (Cons c s)
  obtain l ls where sp: "split_lines s = l # ls"
    by (cases "split_lines s") auto
  show ?case
  proof (cases "c = NL")
    case True
    with Cons sp show ?thesis by (simp add: join_lines_def)
  next
    case False
    with Cons sp show ?thesis
      by (cases ls) (auto simp: join_lines_def)
  qed
qed

lemma split_lines_no_nl: "l \<in> set (split_lines s) \<Longrightarrow> NL \<notin> set l"
proof (induction s arbitrary: l)
  case Nil
  then show ?case by simp
next
  case (Cons c s)
  obtain l' ls where sp: "split_lines s = l' # ls"
    by (cases "split_lines s") auto
  with Cons show ?case
    by (auto split: if_splits)
qed

lemma split_append_nl:
  "NL \<notin> set l \<Longrightarrow> split_lines (l @ NL # s) = l # split_lines s"
  by (induction l) auto

lemma split_single: "NL \<notin> set l \<Longrightarrow> split_lines l = [l]"
  by (induction l) auto

lemma split_join:
  "ls \<noteq> [] \<Longrightarrow> \<forall>l \<in> set ls. NL \<notin> set l \<Longrightarrow> split_lines (join_lines ls) = ls"
proof (induction ls rule: induct_list012)
  case 1
  then show ?case by simp
next
  case (2 x)
  then show ?case by (simp add: join_lines_def split_single)
next
  case (3 x y zs)
  then show ?case by (simp add: join_lines_def split_append_nl)
qed

subsection \<open>What the scan recognises\<close>

lemma cons_seg_Inr [simp]: "cons_seg s (Inr segs) = Inr (s # segs)"
  by (simp add: cons_seg_def)

lemma cons_seg_Inl [simp]: "cons_seg s (Inl e) = Inl e"
  by (simp add: cons_seg_def)

lemma cons_seg_eq_Inr: "cons_seg s r = Inr segs \<longleftrightarrow> (\<exists>segs'. r = Inr segs' \<and> segs = s # segs')"
  by (auto simp: cons_seg_def split: sum.splits)






lemma one_line_not_opener: "one_line opener l \<Longrightarrow> l \<noteq> opener"
  by (auto simp: one_line_def ends_with_def)









lemma scan_license_found:
  "scan m L = Inr segs \<Longrightarrow> LicenseRegion \<in> set segs \<Longrightarrow> license_comment \<in> set L"
proof (induction m L arbitrary: segs rule: scan.induct)
  case (4 l ls)
  then show ?case by (auto simp: cons_seg_eq_Inr split: if_splits)
qed (auto split: if_splits)

lemma then_segs_simps [simp]:
  "then_segs s (Inr segs) = Inr (s @ segs)"
  "then_segs s (Inl e) = Inl e"
  by (simp_all add: then_segs_def)


lemma then_segs_Nil [simp]: "then_segs [] r = r"
  by (cases r) simp_all



subsection \<open>Checking and rebuilding\<close>



lemma count_in: "x \<in> set xs \<Longrightarrow> 0 < count_list xs x"
  by (induction xs) auto




















subsection \<open>The patcher on the artifacts of the tests\<close>

text \<open>
  The model gives what \<^verbatim>\<open>test_update_ebuild\<close>, \<^verbatim>\<open>test_update_ebuild_no_crate_license\<close>,
  \<^verbatim>\<open>test_update_git_crates\<close>, \<^verbatim>\<open>test_update_remove_git_crates\<close> and
  \<^verbatim>\<open>test_update_add_git_crates\<close> expect of \<^verbatim>\<open>update_ebuild\<close>, and fails where
  \<^verbatim>\<open>test_update_ebuild_fail\<close> expects a failure.
\<close>

lemma update_on_test_artifacts:
  "update demo_aggregate old_ebuild pkg_meta crates3 demo_dist True = Inr new_ebuild"
  "update demo_aggregate old_no_license pkg_meta crates3 demo_dist False = Inr new_no_license"
  "update demo_aggregate stale_git_ebuild pkg_meta crates_plus_git demo_dist True = Inr git_ebuild"
  "update demo_aggregate stale_git_ebuild pkg_meta crates3 demo_dist True = Inr removed_git_ebuild"
  "update demo_aggregate no_git_ebuild pkg_meta crates_plus_git demo_dist True = Inr git_ebuild"
  by code_simp+

lemma update_on_bad_artifacts:
  "isl (update demo_aggregate bad_empty pkg_meta crates3 demo_dist True)"
  "isl (update demo_aggregate double_crates pkg_meta crates3 demo_dist True)"
  "isl (update demo_aggregate bad_no_crates pkg_meta crates3 demo_dist True)"
  "isl (update demo_aggregate bad_double_license pkg_meta crates3 demo_dist True)"
  "isl (update demo_aggregate bad_no_license pkg_meta crates3 demo_dist True)"
  "isl (update demo_aggregate bad_no_license_comment pkg_meta crates3 demo_dist True)"
  by code_simp+



section \<open>The patcher and the regions of the artifact\<close>



subsection \<open>Patching without crate licenses\<close>




end
